theory Spec2Isabelle
  imports Main "HOL-Library.Word"
begin

section \<open>Go values\<close>

text \<open>
  The token updater (package \<open>selling_partner_api\<close>) is embedded function by function.
  A Go \<open>int64\<close> is a 64-bit word whose arithmetic wraps; Go's \<open>int\<close> (the type of
  \<open>ExpiresIn\<close>) is taken at its 64-bit width. A pointer is an \<open>option\<close> whose
  \<open>None\<close> is \<open>nil\<close>. A call either returns or panics.
\<close>

type_synonym int64 = "64 word"

type_synonym 'a ptr = "'a option"

datatype 'a outcome =
    Returned 'a
  | Panic \<comment> \<open>runtime error: invalid memory address or nil pointer dereference\<close>

text \<open>
  The error values the updater makes: the error of \<open>http.Post\<close>, the error of
  \<open>io.ReadAll\<close>, \<open>fmt.Errorf\<close> of a finished message, and \<open>fmt.Errorf\<close> with
  a \<open>%w\<close> verb that wraps another error behind a prefix.
\<close>

datatype error =
    PostError string
  | ReadAllError string
  | Errorf string
  | ErrorfW string error

fun Error_string :: "error \<Rightarrow> string" where
  "Error_string (PostError s) = s"
| "Error_string (ReadAllError s) = s"
| "Error_string (Errorf s) = s"
| "Error_string (ErrorfW prefix e) = prefix @ Error_string e"

subsection \<open>sync/atomic cells\<close>

text \<open>
  An \<open>atomic.Value\<close> holds an interface value: \<open>nil\<close> until something is stored, a
  string afterwards (the updater stores nothing else). \<open>Load\<close> and \<open>Swap\<close> have
  pointer receivers and read the cell, so on a nil pointer they panic. The swapped-out
  value is dropped by every caller, so \<open>Swap\<close> returns the cell as updated.
\<close>

type_synonym atomic_Value = "string option"

definition Value_Load :: "atomic_Value ptr \<Rightarrow> string option outcome" where
  "Value_Load p = (case p of None \<Rightarrow> Panic | Some v \<Rightarrow> Returned v)"

definition Value_Swap :: "atomic_Value ptr \<Rightarrow> string \<Rightarrow> atomic_Value ptr outcome" where
  "Value_Swap p new = (case p of None \<Rightarrow> Panic | Some v \<Rightarrow> Returned (Some (Some new)))"

definition Int64_Load :: "int64 ptr \<Rightarrow> int64 outcome" where
  "Int64_Load p = (case p of None \<Rightarrow> Panic | Some v \<Rightarrow> Returned v)"

definition Int64_Swap :: "int64 ptr \<Rightarrow> int64 \<Rightarrow> int64 ptr outcome" where
  "Int64_Swap p new = (case p of None \<Rightarrow> Panic | Some v \<Rightarrow> Returned (Some new))"

text \<open>\<open>fmt.Sprintf("%v", x)\<close> for an interface value that is nil or a string.\<close>

definition Sprintf_v :: "string option \<Rightarrow> string" where
  "Sprintf_v x = (case x of None \<Rightarrow> ''<nil>'' | Some s \<Rightarrow> s)"

subsection \<open>time\<close>

text \<open>
  A \<open>time.Time\<close> is its number of nanoseconds since the Unix epoch; a
  \<open>time.Duration\<close> is an \<open>int64\<close> count of nanoseconds. \<open>Unix()\<close> is the
  whole seconds, rounded down. \<open>Add\<close> is exact on the clock readings considered
  (it saturates only beyond the years an \<open>int64\<close> of seconds can count).
\<close>

type_synonym Time = int

type_synonym Duration = int64

definition Second :: Duration where
  "Second = 1000000000"

definition Time_Add :: "Time \<Rightarrow> Duration \<Rightarrow> Time" where
  "Time_Add t d = t + sint d"

definition Unix :: "Time \<Rightarrow> int64" where
  "Unix t = word_of_int (t div 1000000000)"

section \<open>The world outside the updater\<close>

text \<open>
  What a POST to the token endpoint yields: \<open>http.Post\<close> fails, or there is a
  response whose body \<open>io.ReadAll\<close> fails to read or reads as bytes. The bytes come with
  what \<open>json.Unmarshal\<close> makes of them (\<open>None\<close>: it returns an error). The second
  field of a response is the error of \<open>Body.Close\<close>, if any.
\<close>

record AccessTokenResponse =
  AccessToken :: string
  RefreshToken_resp :: string
  ExpiresIn :: int64
  TokenType :: string
  Error :: string
  ErrorDescription :: string

datatype body_read =
    ReadFails string
  | Bytes string "AccessTokenResponse option"

datatype http_outcome =
    PostFails string
  | Response body_read "string option"

datatype log_call =
    Infof string
  | LogErrorf string

type_synonym chan = nat

text \<open>
  The world is threaded through every call. \<open>responses w n\<close> is what the \<open>n\<close>-th POST
  yields, and \<open>posts\<close> lists the request bodies sent so far (the fields of the JSON
  object). \<open>clock w n\<close> is the \<open>n\<close>-th reading of \<open>time.Now()\<close>. \<open>logged\<close> and
  \<open>slept\<close> list the calls to the logger and to \<open>time.Sleep\<close>. \<open>pending w c\<close> counts
  the goroutines blocked in a send on the unbuffered channel \<open>c\<close>; \<open>made\<close> counts the
  channels made and \<open>loops\<close> the background loops started. The logger of the
  configuration is taken to be a working one: its calls are listed, it is not a field.
\<close>

record world =
  responses :: "nat \<Rightarrow> http_outcome"
  posts :: "(string \<times> string) list list"
  clock :: "nat \<Rightarrow> Time"
  reads :: nat
  logged :: "log_call list"
  slept :: "Duration list"
  pending :: "chan \<Rightarrow> nat"
  made :: nat
  loops :: nat

definition time_Now :: "world \<Rightarrow> Time \<times> world" where
  "time_Now w = (clock w (reads w), w\<lparr>reads := Suc (reads w)\<rparr>)"

definition http_Post :: "(string \<times> string) list \<Rightarrow> world \<Rightarrow> http_outcome \<times> world" where
  "http_Post reqBody w = (responses w (length (posts w)), w\<lparr>posts := posts w @ [reqBody]\<rparr>)"

definition log_Errorf :: "string \<Rightarrow> world \<Rightarrow> world" where
  "log_Errorf s w = w\<lparr>logged := logged w @ [LogErrorf s]\<rparr>"

definition log_Infof :: "string \<Rightarrow> world \<Rightarrow> world" where
  "log_Infof s w = w\<lparr>logged := logged w @ [Infof s]\<rparr>"

definition time_Sleep :: "Duration \<Rightarrow> world \<Rightarrow> world" where
  "time_Sleep d w = w\<lparr>slept := slept w @ [d]\<rparr>"

text \<open>
  The deferred function of \<open>fetchNewToken\<close>: close the body and log the error of a
  failed close.
\<close>

definition Body_Close :: "string option \<Rightarrow> world \<Rightarrow> world" where
  "Body_Close closeErr w = (case closeErr of None \<Rightarrow> w | Some e \<Rightarrow> log_Errorf e w)"

section \<open>TokenUpdater\<close>

record TokenUpdaterConfig =
  RefreshToken :: string
  ClientID :: string
  ClientSecret :: string
  QuitSignal :: "chan option"

record TokenUpdater =
  accessToken :: "atomic_Value ptr"
  ExpireTimestamp :: "int64 ptr"
  config :: TokenUpdaterConfig
  quitSignal :: "chan option"

text \<open>
  The request body of a refresh: \<open>json.Marshal\<close> of the four-entry map, kept as its
  entries (the encoder writes the keys in sorted order).
\<close>

definition refresh_request :: "TokenUpdaterConfig \<Rightarrow> (string \<times> string) list" where
  "refresh_request cfg =
    [(''client_id'', ClientID cfg),
     (''client_secret'', ClientSecret cfg),
     (''grant_type'', ''refresh_token''),
     (''refresh_token'', RefreshToken cfg)]"

text \<open>
  \<open>fetchNewToken\<close>, statement by statement. Next to its result it returns the successive
  states of the updater during the call, the state at entry first: each atomic
  \<open>Swap\<close> adds one. The deferred close runs on every exit after the response arrived, a
  panic included.
\<close>

definition fetchNewToken_steps ::
  "TokenUpdater \<Rightarrow> world \<Rightarrow> error option outcome \<times> TokenUpdater list \<times> world" where
  "fetchNewToken_steps t w =
    (let reqBody = refresh_request (config t);
         (resp, w1) = http_Post reqBody w
     in case resp of
          PostFails e \<Rightarrow> (Returned (Some (PostError e)), [t], w1)
        | Response body closeErr \<Rightarrow>
            (case body of
               ReadFails e \<Rightarrow> (Returned (Some (ReadAllError e)), [t], Body_Close closeErr w1)
             | Bytes respBodyBytes decoded \<Rightarrow>
                 (case decoded of
                    None \<Rightarrow>
                      (Returned (Some (Errorf
                         (''RefreshToken response parse failed. Body: '' @ respBodyBytes))),
                       [t], Body_Close closeErr w1)
                  | Some parsedResp \<Rightarrow>
                      if AccessToken parsedResp \<noteq> [] then
                        (case Value_Swap (accessToken t) (AccessToken parsedResp) of
                           Panic \<Rightarrow> (Panic, [t], Body_Close closeErr w1)
                         | Returned a \<Rightarrow>
                             (let t1 = t\<lparr>accessToken := a\<rparr>;
                                  (now, w2) = time_Now w1;
                                  expireTimestamp = Time_Add now (ExpiresIn parsedResp * Second)
                              in case Int64_Swap (ExpireTimestamp t1) (Unix expireTimestamp) of
                                   Panic \<Rightarrow> (Panic, [t, t1], Body_Close closeErr w2)
                                 | Returned x \<Rightarrow>
                                     (Returned None, [t, t1, t1\<lparr>ExpireTimestamp := x\<rparr>],
                                      Body_Close closeErr w2)))
                      else (Returned None, [t], Body_Close closeErr w1))))"

definition fetchNewToken ::
  "TokenUpdater \<Rightarrow> world \<Rightarrow> error option outcome \<times> TokenUpdater \<times> world" where
  "fetchNewToken t w =
    (case fetchNewToken_steps t w of (r, ts, w') \<Rightarrow> (r, last ts, w'))"

text \<open>
  \<open>NewTokenUpdater\<close>: the struct literal sets \<open>config\<close>, \<open>log\<close> and \<open>quitSignal\<close>;
  the two pointer fields keep their zero value, nil. The result is the pair
  \<open>(*TokenUpdater, error)\<close>.
\<close>

definition TokenUpdater_literal :: "TokenUpdaterConfig \<Rightarrow> TokenUpdater" where
  "TokenUpdater_literal cfg =
    \<lparr>accessToken = None, ExpireTimestamp = None, config = cfg, quitSignal = QuitSignal cfg\<rparr>"

definition NewTokenUpdater ::
  "TokenUpdaterConfig \<Rightarrow> world \<Rightarrow> (TokenUpdater option \<times> error option) outcome \<times> world" where
  "NewTokenUpdater cfg w =
    (let t = TokenUpdater_literal cfg
     in case fetchNewToken t w of
          (Panic, t', w') \<Rightarrow> (Panic, w')
        | (Returned (Some err), t', w') \<Rightarrow>
            (Returned (None, Some (ErrorfW ''accesstoken could not be fetched: '' err)), w')
        | (Returned None, t', w') \<Rightarrow> (Returned (Some t', None), w'))"

definition GetAccessToken :: "TokenUpdater \<Rightarrow> string outcome" where
  "GetAccessToken t =
    (case Value_Load (accessToken t) of
       Panic \<Rightarrow> Panic
     | Returned v \<Rightarrow> Returned (Sprintf_v v))"

subsection \<open>The background loop\<close>

definition secondsUntilExpired :: "int64 \<Rightarrow> world \<Rightarrow> int64 \<times> world" where
  "secondsUntilExpired unixTimestamp w =
    (let (now, w1) = time_Now w;
         currentTimestamp = Unix now
     in (unixTimestamp - currentTimestamp, w1))"

text \<open>
  One pass through the \<open>for\<close> loop of \<open>checkAccessToken\<close>. The \<open>select\<close> takes the
  receive when a sender waits on \<open>t.quitSignal\<close>; a nil channel is never ready. Otherwise
  the \<open>default\<close> branch runs. \<open>ExpiryDelta\<close> is a constant of the package that the
  files at hand do not declare: \<open>ExpiryDelta_Seconds\<close> stands for
  \<open>int64(ExpiryDelta.Seconds())\<close>. The comparison is the signed one of \<open>int64\<close>.
\<close>

datatype loop_status =
    Continue \<comment> \<open>the pass ended, the loop goes round again\<close>
  | Stopped \<comment> \<open>the loop returned\<close>
  | Crashed \<comment> \<open>the goroutine panicked\<close>

definition chan_receive :: "chan \<Rightarrow> world \<Rightarrow> world" where
  "chan_receive c w = w\<lparr>pending := (pending w)(c := pending w c - 1)\<rparr>"

definition checkAccessToken_default ::
  "int64 \<Rightarrow> TokenUpdater \<Rightarrow> world \<Rightarrow> loop_status \<times> TokenUpdater \<times> world" where
  "checkAccessToken_default ExpiryDelta_Seconds t w =
    (case Int64_Load (ExpireTimestamp t) of
       Panic \<Rightarrow> (Crashed, t, w)
     | Returned unixTimestamp \<Rightarrow>
         (let (secondsToWait, w1) = secondsUntilExpired unixTimestamp w
          in if sint secondsToWait \<le> sint ExpiryDelta_Seconds then
               (case fetchNewToken t w1 of
                  (Panic, t', w') \<Rightarrow> (Crashed, t', w')
                | (Returned (Some err), t', w') \<Rightarrow>
                    (Continue, t', log_Errorf (Error_string err) w')
                | (Returned None, t', w') \<Rightarrow> (Continue, t', w'))
             else
               (Continue, t,
                time_Sleep ((secondsToWait - ExpiryDelta_Seconds) * Second) w1)))"

definition checkAccessToken_pass ::
  "int64 \<Rightarrow> TokenUpdater \<Rightarrow> world \<Rightarrow> loop_status \<times> TokenUpdater \<times> world" where
  "checkAccessToken_pass ExpiryDelta_Seconds t w =
    (case quitSignal t of
       None \<Rightarrow> checkAccessToken_default ExpiryDelta_Seconds t w
     | Some c \<Rightarrow>
         if 0 < pending w c then
           (Stopped, t, log_Infof ''Received signal to stop token updates.'' (chan_receive c w))
         else checkAccessToken_default ExpiryDelta_Seconds t w)"

text \<open>
  The loop has no bound of its own, so it runs on fuel: \<open>None\<close> when the fuel is used
  up with the loop still going, otherwise how and where it ended.
\<close>

fun checkAccessToken ::
  "nat \<Rightarrow> int64 \<Rightarrow> TokenUpdater \<Rightarrow> world \<Rightarrow> (loop_status \<times> TokenUpdater \<times> world) option" where
  "checkAccessToken 0 ExpiryDelta_Seconds t w = None"
| "checkAccessToken (Suc n) ExpiryDelta_Seconds t w =
    (case checkAccessToken_pass ExpiryDelta_Seconds t w of
       (Continue, t', w') \<Rightarrow> checkAccessToken n ExpiryDelta_Seconds t' w'
     | (Stopped, t', w') \<Rightarrow> Some (Stopped, t', w')
     | (Crashed, t', w') \<Rightarrow> Some (Crashed, t', w'))"

section \<open>SellingPartnerClient\<close>

text \<open>
  \<open>NewHttpClient\<close> and the types around it are not among the files at hand, so the
  constructor is a parameter: from the \<open>HttpClientConfig\<close> it gives a client of some
  type \<open>'h\<close> and an error. Of \<open>Config\<close> and \<open>HttpClientConfig\<close> the fields
  that reach the updater are kept, with the endpoint. \<open>RunInBackground\<close> starts the
  loop in a goroutine of its own (\<open>go t.checkAccessToken()\<close>); it returns nothing in
  the updater's file, so the client's test of its result never fails. A nil updater
  with a nil error does not come back from \<open>NewTokenUpdater\<close>; its loop would panic
  on the first field it reads.
\<close>

record Config =
  Config_ClientID :: string
  Config_ClientSecret :: string
  Config_RefreshToken :: string
  Config_Endpoint :: string

record HttpClientConfig =
  Endpoint :: string
  TokenUpdater_of :: TokenUpdater

record 'h SellingPartnerClient =
  client_quitSignal :: "chan option"
  Report :: 'h

definition make_chan :: "world \<Rightarrow> chan \<times> world" where
  "make_chan w = (made w, w\<lparr>made := Suc (made w), pending := (pending w)(made w := 0)\<rparr>)"

definition RunInBackground :: "TokenUpdater \<Rightarrow> world \<Rightarrow> world" where
  "RunInBackground t w = w\<lparr>loops := Suc (loops w)\<rparr>"

definition NewSellingPartnerClient ::
  "(HttpClientConfig \<Rightarrow> 'h \<times> error option) \<Rightarrow> Config \<Rightarrow> world \<Rightarrow>
     ('h SellingPartnerClient option \<times> error option) outcome \<times> world" where
  "NewSellingPartnerClient NewHttpClient cfg w =
    (let (quitSignal, w1) = make_chan w
     in case NewTokenUpdater
               \<lparr>RefreshToken = Config_RefreshToken cfg, ClientID = Config_ClientID cfg,
                ClientSecret = Config_ClientSecret cfg, QuitSignal = None\<rparr> w1 of
          (Panic, w2) \<Rightarrow> (Panic, w2)
        | (Returned (_, Some err), w2) \<Rightarrow> (Returned (None, Some err), w2)
        | (Returned (None, None), w2) \<Rightarrow> (Panic, w2)
        | (Returned (Some t, None), w2) \<Rightarrow>
            (let w3 = RunInBackground t w2;
                 httpConfig = \<lparr>Endpoint = Config_Endpoint cfg, TokenUpdater_of = t\<rparr>
             in case NewHttpClient httpConfig of
                  (httpClient, Some err) \<Rightarrow> (Returned (None, Some err), w3)
                | (httpClient, None) \<Rightarrow>
                    (Returned (Some \<lparr>client_quitSignal = Some quitSignal, Report = httpClient\<rparr>,
                               None), w3)))"

text \<open>
  \<open>Close\<close> sends on the client's channel. The channel is unbuffered, so the sender
  waits until a receive takes the value.
\<close>

definition Close :: "'h SellingPartnerClient \<Rightarrow> world \<Rightarrow> world" where
  "Close s w =
    (case client_quitSignal s of
       None \<Rightarrow> w
     | Some c \<Rightarrow> w\<lparr>pending := (pending w)(c := Suc (pending w c))\<rparr>)"

section \<open>The call executor\<close>

subsection \<open>The transport of the test\<close>

text \<open>
  \<open>caller_test.go\<close> runs \<open>Execute\<close> against \<open>dummyHttpClient\<close>: \<open>Do\<close> keeps the
  request it was handed and answers with the canned response and error;
  \<open>GetEndpoint\<close> gives the base URL. Of an \<open>http.Request\<close> the method, the URL as
  \<open>URL.String()\<close> prints it, the headers and the body bytes are kept; of an
  \<open>http.Response\<close> the status code and the body bytes. Whatever a transport answers
  to one request, the canned response and error can be that answer.
\<close>

datatype header =
    ContentType string
  | RestrictedDataToken string

record http_Request =
  Method :: string
  URL :: string
  Header :: "header list"
  Body :: "string option"

record http_Response =
  StatusCode :: nat
  Body_bytes :: string

record dummyHttpClient =
  endpoint :: string
  req :: "http_Request option"
  resp :: http_Response
  errResp :: "string option"

definition Do ::
  "dummyHttpClient \<Rightarrow> http_Request \<Rightarrow> (http_Response \<times> string option) \<times> dummyHttpClient" where
  "Do r request = ((resp r, errResp r), r\<lparr>req := Some request\<rparr>)"

definition GetEndpoint :: "dummyHttpClient \<Rightarrow> string" where
  "GetEndpoint r = endpoint r"

subsection \<open>Call and Execute\<close>

text \<open>
  Modelled from the spec: \<open>call.go\<close> (\<open>NewCall\<close>, the \<open>With...\<close> builders and
  \<open>Execute\<close>) is not among the files at hand, only its test is. A call is the method,
  the path, the query parameters as an ordered multimap (each key with its values, in the
  order supplied), the serialized body (empty: none), the restricted-data token and the
  flag for parsing an error list.
\<close>

record call =
  call_method :: string
  call_path :: string
  queryParams :: "(string \<times> string list) list"
  call_body :: string
  restrictedDataToken :: "string option"
  parseErrorListOnError :: bool

text \<open>
  Modelled from the spec: \<open>NewCall(method, path)\<close> has no query parameters, no body, no
  token, and error parsing disabled.
\<close>

definition NewCall :: "string \<Rightarrow> string \<Rightarrow> call" where
  "NewCall m p =
    \<lparr>call_method = m, call_path = p, queryParams = [], call_body = [],
     restrictedDataToken = None, parseErrorListOnError = False\<rparr>"

text \<open>
  Modelled from the spec: \<open>WithQueryParams\<close> attaches the parameters; an absent or
  empty input is a no-op.
\<close>

definition WithQueryParams :: "(string \<times> string list) list \<Rightarrow> call \<Rightarrow> call" where
  "WithQueryParams params c = (if params = [] then c else c\<lparr>queryParams := params\<rparr>)"

text \<open>Modelled from the spec: \<open>WithBody\<close> attaches the bytes; empty means no body.\<close>

definition WithBody :: "string \<Rightarrow> call \<Rightarrow> call" where
  "WithBody bytes c = c\<lparr>call_body := bytes\<rparr>"

text \<open>Modelled from the spec: \<open>WithRestrictedDataToken\<close> keeps the token for its header.\<close>

definition WithRestrictedDataToken :: "string \<Rightarrow> call \<Rightarrow> call" where
  "WithRestrictedDataToken token c = c\<lparr>restrictedDataToken := Some token\<rparr>"

text \<open>Modelled from the spec: \<open>WithParseErrorListOnError\<close> sets the flag.\<close>

definition WithParseErrorListOnError :: "bool \<Rightarrow> call \<Rightarrow> call" where
  "WithParseErrorListOnError b c = c\<lparr>parseErrorListOnError := b\<rparr>"

text \<open>
  Modelled from the spec: query parameters are percent-encoded. A byte that is a letter, a
  digit or one of \<open>- _ . ~\<close> stands for itself; any other byte is \<open>%\<close> and its two
  upper-case hexadecimal digits.
\<close>

definition unreserved :: "char \<Rightarrow> bool" where
  "unreserved c =
    (c \<in> set ''ABCDEFGHIJKLMNOPQRSTUVWXYZabcdefghijklmnopqrstuvwxyz0123456789-_.~'')"

definition hexdigit :: "nat \<Rightarrow> char" where
  "hexdigit n = ''0123456789ABCDEF'' ! (n mod 16)"

definition escape_byte :: "char \<Rightarrow> string" where
  "escape_byte c =
    (if unreserved c then [c]
     else [CHR ''%'', hexdigit (of_char c div 16), hexdigit (of_char c mod 16)])"

definition escape :: "string \<Rightarrow> string" where
  "escape s = concat (map escape_byte s)"

text \<open>
  Modelled from the spec: the parameters are appended in the order supplied, each value of
  a key as \<open>key=value\<close>, the pairs joined by \<open>&\<close>.
\<close>

definition query_pairs :: "(string \<times> string list) list \<Rightarrow> (string \<times> string) list" where
  "query_pairs params = concat (map (\<lambda>(k, vs). map (\<lambda>v. (k, v)) vs) params)"

fun join_pairs :: "(string \<times> string) list \<Rightarrow> string" where
  "join_pairs [] = []"
| "join_pairs [(k, v)] = escape k @ ''='' @ escape v"
| "join_pairs ((k, v) # kv # kvs) = escape k @ ''='' @ escape v @ ''&'' @ join_pairs (kv # kvs)"

definition encodeQuery :: "(string \<times> string list) list \<Rightarrow> string" where
  "encodeQuery params = join_pairs (query_pairs params)"

text \<open>
  Modelled from the spec: step 1 to 3 of \<open>Execute\<close>. The URL is the base URL joined with
  the path, then \<open>?\<close> and the encoded parameters if there are any; a body brings
  \<open>Content-Type: application/json\<close>; a non-empty token brings its header.
\<close>

definition compose_url :: "string \<Rightarrow> call \<Rightarrow> string" where
  "compose_url base c =
    base @ call_path c @
    (if queryParams c = [] then [] else ''?'' @ encodeQuery (queryParams c))"

definition build_request :: "string \<Rightarrow> call \<Rightarrow> http_Request" where
  "build_request base c =
    \<lparr>Method = call_method c,
     URL = compose_url base c,
     Header =
       (if call_body c = [] then [] else [ContentType ''application/json''])
       @ (case restrictedDataToken c of
            None \<Rightarrow> []
          | Some token \<Rightarrow> if token = [] then [] else [RestrictedDataToken token]),
     Body = (if call_body c = [] then None else Some (call_body c))\<rparr>"

text \<open>
  \<open>Error\<close> and \<open>ErrorList\<close> as \<open>reports/model.go\<close> declares them (the test builds
  the same shape); an error list is the sequence of its \<open>Errors\<close>.
\<close>

record api_Error =
  Code :: string
  Message :: string
  Details :: "string option"

type_synonym ErrorList = "api_Error list"

text \<open>
  Modelled from the spec: the result of \<open>Execute\<close> is a hard error or a
  \<open>CallResponse\<close> with a success payload or an error list. The two JSON decoders (into
  the payload type and into \<open>ErrorList\<close>) are parameters of \<open>Execute\<close>; \<open>None\<close> is
  a decoding failure. A status is a success from 200 to 299.
\<close>

record 'a CallResponse =
  ResponseBody :: "'a option"
  ErrorList :: "ErrorList option"

datatype call_error =
    TransportError string
  | DecodeError string
  | FailureStatus nat

definition is_success :: "nat \<Rightarrow> bool" where
  "is_success status = (200 \<le> status \<and> status < 300)"

text \<open>
  Modelled from the spec: step 4 to 7 of \<open>Execute\<close>. A transport error comes back at
  once. A success status with a non-empty body is decoded into the payload, with an empty
  body the payload stays unset. A failure status is decoded into the error list when
  error parsing is enabled, and is a generic error otherwise. A decoding failure is a
  hard error.
\<close>

definition Execute ::
  "(string \<Rightarrow> 'a option) \<Rightarrow> (string \<Rightarrow> ErrorList option) \<Rightarrow> call \<Rightarrow> dummyHttpClient \<Rightarrow>
     (call_error + 'a CallResponse) \<times> dummyHttpClient" where
  "Execute decodeBody decodeErrorList c client =
    (let request = build_request (GetEndpoint client) c;
         ((response, err), client') = Do client request
     in case err of
          Some e \<Rightarrow> (Inl (TransportError e), client')
        | None \<Rightarrow>
            if is_success (StatusCode response) then
              (if Body_bytes response = [] then
                 (Inr \<lparr>ResponseBody = None, ErrorList = None\<rparr>, client')
               else
                 (case decodeBody (Body_bytes response) of
                    None \<Rightarrow> (Inl (DecodeError (Body_bytes response)), client')
                  | Some v \<Rightarrow> (Inr \<lparr>ResponseBody = Some v, ErrorList = None\<rparr>, client')))
            else if parseErrorListOnError c then
              (case decodeErrorList (Body_bytes response) of
                 None \<Rightarrow> (Inl (DecodeError (Body_bytes response)), client')
               | Some errs \<Rightarrow> (Inr \<lparr>ResponseBody = None, ErrorList = Some errs\<rparr>, client'))
            else (Inl (FailureStatus (StatusCode response)), client'))"

section \<open>Observations and example states\<close>

text \<open>
  The pair a reader of the updater sees, whether a POST yields a response that carries an
  access token, whether a stop signal waits for the loop, and a run of \<open>n\<close> fetches one
  after the other (a panic ends the run).
\<close>

definition token_pair :: "TokenUpdater \<Rightarrow> atomic_Value ptr \<times> int64 ptr" where
  "token_pair t = (accessToken t, ExpireTimestamp t)"

definition carries_token :: "http_outcome \<Rightarrow> bool" where
  "carries_token r =
    (case r of
       PostFails e \<Rightarrow> False
     | Response body closeErr \<Rightarrow>
         (case body of
            ReadFails e \<Rightarrow> False
          | Bytes b decoded \<Rightarrow>
              (case decoded of
                 None \<Rightarrow> False
               | Some parsedResp \<Rightarrow> AccessToken parsedResp \<noteq> [])))"

definition stop_waiting :: "TokenUpdater \<Rightarrow> world \<Rightarrow> bool" where
  "stop_waiting t w = (case quitSignal t of None \<Rightarrow> False | Some c \<Rightarrow> 0 < pending w c)"

fun refetch :: "nat \<Rightarrow> TokenUpdater \<Rightarrow> world \<Rightarrow> (TokenUpdater \<times> world) outcome" where
  "refetch 0 t w = Returned (t, w)"
| "refetch (Suc n) t w =
    (case fetchNewToken t w of
       (Panic, t', w') \<Rightarrow> Panic
     | (Returned r, t', w') \<Rightarrow> refetch n t' w')"

subsection \<open>Reading a query string back\<close>







subsection \<open>A token endpoint that grants, one that denies, one out of reach\<close>

definition quoted :: "string \<Rightarrow> string" where
  "quoted s = CHR 0x22 # s @ [CHR 0x22]"

definition example_config :: TokenUpdaterConfig where
  "example_config =
    \<lparr>RefreshToken = ''Atzr|refresh'', ClientID = ''amzn1.application'',
     ClientSecret = ''secret'', QuitSignal = None\<rparr>"

definition granted_body :: string where
  "granted_body =
    ''{'' @ quoted ''access_token'' @ '':'' @ quoted ''Atza|fresh''
    @ '','' @ quoted ''refresh_token'' @ '':'' @ quoted ''Atzr|refresh''
    @ '','' @ quoted ''token_type'' @ '':'' @ quoted ''bearer''
    @ '','' @ quoted ''expires_in'' @ '':3600}''"

definition granted :: AccessTokenResponse where
  "granted =
    \<lparr>AccessToken = ''Atza|fresh'', RefreshToken_resp = ''Atzr|refresh'', ExpiresIn = 3600,
     TokenType = ''bearer'', Error = [], ErrorDescription = []\<rparr>"

definition denied_body :: string where
  "denied_body =
    ''{'' @ quoted ''error'' @ '':'' @ quoted ''invalid_grant''
    @ '','' @ quoted ''error_description'' @ '':'' @ quoted ''The refresh token is invalid''
    @ ''}''"

definition denied :: AccessTokenResponse where
  "denied =
    \<lparr>AccessToken = [], RefreshToken_resp = [], ExpiresIn = 0, TokenType = [],
     Error = ''invalid_grant'', ErrorDescription = ''The refresh token is invalid''\<rparr>"

text \<open>
  A world whose token endpoint always answers the same, at a quarter of a second past
  second 1700000000, with nothing sent, logged or slept yet and no channel made.
\<close>

definition world_of :: "http_outcome \<Rightarrow> world" where
  "world_of r =
    \<lparr>responses = (\<lambda>n. r), posts = [], clock = (\<lambda>n. 1700000000250000000), reads = 0,
     logged = [], slept = [], pending = (\<lambda>c. 0), made = 0, loops = 0\<rparr>"

definition grant_world :: world where
  "grant_world = world_of (Response (Bytes granted_body (Some granted)) None)"

definition deny_world :: world where
  "deny_world = world_of (Response (Bytes denied_body (Some denied)) None)"

definition offline_world :: world where
  "offline_world = world_of (PostFails ''dial tcp: i/o timeout'')"

text \<open>
  Updaters whose two cells are allocated: one that holds a token expiring 30 seconds after
  the clock of the example worlds, one expiring 100 seconds after it, one expiring ten
  thousand million seconds after it, one with a quit channel, and one in whose cell no
  token was ever stored. No function of the files at hand allocates the cells; such an
  updater is built by other code of the package.
\<close>

definition previous :: TokenUpdater where
  "previous =
    \<lparr>accessToken = Some (Some ''Atza|previous''), ExpireTimestamp = Some 1700000030,
     config = example_config, quitSignal = None\<rparr>"

definition rested :: TokenUpdater where
  "rested = previous\<lparr>ExpireTimestamp := Some 1700000100\<rparr>"

definition distant :: TokenUpdater where
  "distant = previous\<lparr>ExpireTimestamp := Some 11700000000\<rparr>"

definition signalled :: TokenUpdater where
  "signalled = previous\<lparr>ExpireTimestamp := Some 1700000100, quitSignal := Some 0\<rparr>"

definition unset :: TokenUpdater where
  "unset =
    \<lparr>accessToken = Some None, ExpireTimestamp = Some 0,
     config = example_config, quitSignal = None\<rparr>"

subsection \<open>A client configuration\<close>

definition example_Config :: Config where
  "example_Config =
    \<lparr>Config_ClientID = ''amzn1.application'', Config_ClientSecret = ''secret'',
     Config_RefreshToken = ''Atzr|refresh'',
     Config_Endpoint = ''https://sellingpartnerapi-na.amazon.com''\<rparr>"

text \<open>An HTTP client constructor that never fails and keeps its configuration.\<close>

definition keep_config :: "HttpClientConfig \<Rightarrow> HttpClientConfig \<times> error option" where
  "keep_config c = (c, None)"

subsection \<open>The cases of \<open>Test_call_Execute\<close>\<close>

text \<open>
  The endpoint constant of the test, read off the URLs the test wants; the payload type
  \<open>dummyBody\<close> (its number kept as the JSON text); the bodies \<open>mockResponse\<close>
  serializes; decoders that read exactly these bodies; and the transport \<open>mockResponse\<close>
  prepares, with its status and body.
\<close>

definition NorthAmerica :: string where
  "NorthAmerica = ''https://sellingpartnerapi-na.amazon.com''"

record dummyBody =
  dummy_Message :: string
  dummy_Number :: string

definition all_ok :: dummyBody where
  "all_ok = \<lparr>dummy_Message = ''All ok'', dummy_Number = ''4711.0815''\<rparr>"

definition all_ok_body :: string where
  "all_ok_body =
    ''{'' @ quoted ''Message'' @ '':'' @ quoted ''All ok''
    @ '','' @ quoted ''Number'' @ '':4711.0815}''"

definition hello_body :: string where
  "hello_body =
    ''{'' @ quoted ''Message'' @ '':'' @ quoted ''Hello there...''
    @ '','' @ quoted ''Number'' @ '':47}''"

definition errors_4711 :: ErrorList where
  "errors_4711 = [\<lparr>Code = ''4711'', Message = ''Oooops'', Details = None\<rparr>]"

definition errors_4711_body :: string where
  "errors_4711_body =
    ''{'' @ quoted ''errors'' @ '':[{'' @ quoted ''code'' @ '':'' @ quoted ''4711''
    @ '','' @ quoted ''message'' @ '':'' @ quoted ''Oooops'' @ ''}]}''"

definition decode_dummyBody :: "string \<Rightarrow> dummyBody option" where
  "decode_dummyBody bytes = (if bytes = all_ok_body then Some all_ok else None)"

definition decode_ErrorList :: "string \<Rightarrow> ErrorList option" where
  "decode_ErrorList bytes = (if bytes = errors_4711_body then Some errors_4711 else None)"

definition mockResponse :: "nat \<Rightarrow> string \<Rightarrow> dummyHttpClient" where
  "mockResponse status bytes =
    \<lparr>endpoint = NorthAmerica, req = None,
     resp = \<lparr>StatusCode = status, Body_bytes = bytes\<rparr>, errResp = None\<rparr>"

section \<open>Properties of the token updater\<close>

lemmas world_ops = http_Post_def Body_Close_def log_Errorf_def time_Now_def

subsection \<open>What a fetch does to the world and to the updater\<close>

lemma fetchNewToken_posts:
  "posts (snd (snd (fetchNewToken t w))) = posts w @ [refresh_request (config t)]"
  by (simp add: fetchNewToken_def fetchNewToken_steps_def world_ops Let_def
      split: http_outcome.splits body_read.splits option.splits outcome.splits prod.splits)

lemma fetchNewToken_slept:
  "slept (snd (snd (fetchNewToken t w))) = slept w"
  by (simp add: fetchNewToken_def fetchNewToken_steps_def world_ops Let_def
      split: http_outcome.splits body_read.splits option.splits outcome.splits prod.splits)

lemma fetchNewToken_pending:
  "pending (snd (snd (fetchNewToken t w))) = pending w"
  by (simp add: fetchNewToken_def fetchNewToken_steps_def world_ops Let_def
      split: http_outcome.splits body_read.splits option.splits outcome.splits prod.splits)

lemma fetchNewToken_quitSignal:
  "quitSignal (fst (snd (fetchNewToken t w))) = quitSignal t"
  by (simp add: fetchNewToken_def fetchNewToken_steps_def world_ops Let_def
      Value_Swap_def Int64_Swap_def
      split: http_outcome.splits body_read.splits option.splits outcome.splits prod.splits)

lemma fetchNewToken_error_keeps:
  "fst (fetchNewToken t w) = Returned (Some e) \<Longrightarrow> fst (snd (fetchNewToken t w)) = t"
  by (simp add: fetchNewToken_def fetchNewToken_steps_def world_ops Let_def
      split: http_outcome.splits body_read.splits option.splits outcome.splits prod.splits
        if_splits)

lemma fetchNewToken_without_token:
  assumes "\<not> carries_token (responses w (length (posts w)))"
  shows "\<exists>r w'. fetchNewToken t w = (Returned r, t, w') \<and> responses w' = responses w
           \<and> posts w' = posts w @ [refresh_request (config t)]"
  using assms
  by (auto simp add: fetchNewToken_def fetchNewToken_steps_def world_ops carries_token_def
      Let_def split: http_outcome.splits body_read.splits option.splits)

lemma refetch_without_token:
  assumes "\<forall>k<n. \<not> carries_token (responses w (length (posts w) + k))"
  shows "\<exists>w'. refetch n t w = Returned (t, w')"
  using assms
proof (induction n arbitrary: w)
  case 0
  then show ?case by simp
next
  case (Suc n)
  from Suc.prems have "\<not> carries_token (responses w (length (posts w)))"
    by (metis add.right_neutral zero_less_Suc)
  from fetchNewToken_without_token [OF this, of t]
  obtain r w1 where f: "fetchNewToken t w = (Returned r, t, w1)"
    and r: "responses w1 = responses w"
    and p: "posts w1 = posts w @ [refresh_request (config t)]"
    by blast
  have "\<forall>k<n. \<not> carries_token (responses w1 (length (posts w1) + k))"
  proof (intro allI impI)
    fix k assume "k < n"
    then have "Suc k < Suc n" by simp
    with Suc.prems have "\<not> carries_token (responses w (length (posts w) + Suc k))"
      by blast
    then show "\<not> carries_token (responses w1 (length (posts w1) + k))"
      by (simp add: r p)
  qed
  from Suc.IH [OF this] obtain w' where "refetch n t w1 = Returned (t, w')" by blast
  with f show ?case by simp
qed

subsection \<open>Publishing the token and its expiry\<close>

text \<open>
  Claim C1 says that a read during a refresh sees the complete previous pair or the
  complete new pair of token and expiry. The updater keeps the two in separate atomic
  cells and swaps the token first, so between the two swaps the cells hold the new token
  with the previous expiry. With a token expiring at 1700000030 in place and a grant of
  3600 seconds arriving, the second of the three states is that mix.
\<close>

theorem publish_mixed_pair_counterexample:
  "map token_pair (fst (snd (fetchNewToken_steps previous grant_world))) =
     [(Some (Some ''Atza|previous''), Some 1700000030),
      (Some (Some ''Atza|fresh''), Some 1700000030),
      (Some (Some ''Atza|fresh''), Some 1700003600)]
   \<and> (Some (Some ''Atza|fresh''), Some (1700000030 :: int64))
       \<noteq> (Some (Some ''Atza|previous''), Some 1700000030)
   \<and> (Some (Some ''Atza|fresh''), Some (1700000030 :: int64))
       \<noteq> (Some (Some ''Atza|fresh''), Some 1700003600)"
  by (simp add: fetchNewToken_steps_def world_ops Value_Swap_def Int64_Swap_def Let_def
      grant_world_def world_of_def granted_def previous_def token_pair_def Time_Add_def
      Unix_def Second_def)

text \<open>
  Claim C1 as amended: when both cells are allocated and the response carries a token,
  the updater passes through exactly three states during the fetch: the previous pair,
  the new token with the previous expiry, and the new pair. Each swap is atomic on its
  own cell; the previous token never stands with the new expiry.
\<close>

theorem publish_visible_pairs:
  assumes "responses w (length (posts w)) = Response (Bytes b (Some parsedResp)) closeErr"
    and "AccessToken parsedResp \<noteq> []"
    and "accessToken t = Some a"
    and "ExpireTimestamp t = Some x"
  shows "map token_pair (fst (snd (fetchNewToken_steps t w))) =
     [(Some a, Some x),
      (Some (Some (AccessToken parsedResp)), Some x),
      (Some (Some (AccessToken parsedResp)),
       Some (Unix (Time_Add (clock w (reads w)) (ExpiresIn parsedResp * Second))))]
    \<and> fst (snd (fetchNewToken t w)) = last (fst (snd (fetchNewToken_steps t w)))"
  using assms
  by (simp add: fetchNewToken_def fetchNewToken_steps_def world_ops Value_Swap_def
      Int64_Swap_def Let_def token_pair_def)

text \<open>
  The amended claim at work: the endpoint grants \<open>Atza|fresh\<close> for 3600 seconds to the
  updater that holds \<open>Atza|previous\<close>.
\<close>

theorem publish_visible_pairs_witness:
  "responses grant_world (length (posts grant_world))
     = Response (Bytes granted_body (Some granted)) None
   \<and> AccessToken granted \<noteq> []
   \<and> accessToken previous = Some (Some ''Atza|previous'')
   \<and> ExpireTimestamp previous = Some 1700000030
   \<and> map token_pair (fst (snd (fetchNewToken_steps previous grant_world))) =
       [(Some (Some ''Atza|previous''), Some 1700000030),
        (Some (Some ''Atza|fresh''), Some 1700000030),
        (Some (Some ''Atza|fresh''),
         Some (Unix (Time_Add 1700000000250000000 (3600 * Second))))]
   \<and> fst (snd (fetchNewToken previous grant_world))
       = last (fst (snd (fetchNewToken_steps previous grant_world)))"
proof -
  have 1: "responses grant_world (length (posts grant_world))
      = Response (Bytes granted_body (Some granted)) None"
    by (simp add: grant_world_def world_of_def)
  have 2: "AccessToken granted \<noteq> []" by (simp add: granted_def)
  have 3: "accessToken previous = Some (Some ''Atza|previous'')" by (simp add: previous_def)
  have 4: "ExpireTimestamp previous = Some 1700000030" by (simp add: previous_def)
  have 5: "AccessToken granted = ''Atza|fresh''" "ExpiresIn granted = 3600"
    "clock grant_world (reads grant_world) = 1700000000250000000"
    by (simp_all add: grant_world_def world_of_def granted_def)
  from publish_visible_pairs [OF 1 2 3 4]
  have "map token_pair (fst (snd (fetchNewToken_steps previous grant_world))) =
       [(Some (Some ''Atza|previous''), Some 1700000030),
        (Some (Some ''Atza|fresh''), Some 1700000030),
        (Some (Some ''Atza|fresh''),
         Some (Unix (Time_Add 1700000000250000000 (3600 * Second))))]
   \<and> fst (snd (fetchNewToken previous grant_world))
       = last (fst (snd (fetchNewToken_steps previous grant_world)))"
    by (simp only: 5)
  with 1 2 3 4 show ?thesis by blast
qed

subsection \<open>A response without a token\<close>

text \<open>
  Claim C2 says that a response with an empty \<open>access_token\<close> makes \<open>fetchNewToken\<close>
  return an error that carries the parsed error description. The function reads the
  description nowhere: after the test for a non-empty token it returns nil. Here the
  endpoint denies the grant with a description, and the result is the nil error.
\<close>

theorem fetchNewToken_empty_token_counterexample:
  "AccessToken denied = []
   \<and> ErrorDescription denied = ''The refresh token is invalid''
   \<and> responses deny_world (length (posts deny_world))
       = Response (Bytes denied_body (Some denied)) None
   \<and> fst (fetchNewToken previous deny_world) = Returned None"
  by (simp add: fetchNewToken_def fetchNewToken_steps_def world_ops deny_world_def world_of_def
      denied_def)

text \<open>
  Claim C2 as amended: for every response whose \<open>access_token\<close> is empty,
  \<open>fetchNewToken\<close> leaves the updater, and with it the published token and expiry, as
  they were, and returns a nil error. The world has one more POST and the log of a failed
  close, nothing else.
\<close>

theorem fetchNewToken_empty_token:
  assumes "responses w (length (posts w)) = Response (Bytes b (Some parsedResp)) closeErr"
    and "AccessToken parsedResp = []"
  shows "fetchNewToken t w =
    (Returned None, t,
     Body_Close closeErr (w\<lparr>posts := posts w @ [refresh_request (config t)]\<rparr>))"
  using assms by (simp add: fetchNewToken_def fetchNewToken_steps_def http_Post_def)

text \<open>The amended claim at work: the endpoint denies the grant.\<close>

theorem fetchNewToken_empty_token_witness:
  "responses deny_world (length (posts deny_world))
     = Response (Bytes denied_body (Some denied)) None
   \<and> AccessToken denied = []
   \<and> fetchNewToken previous deny_world =
       (Returned None, previous,
        Body_Close None
          (deny_world\<lparr>posts := posts deny_world @ [refresh_request (config previous)]\<rparr>))"
proof -
  have 1: "responses deny_world (length (posts deny_world))
      = Response (Bytes denied_body (Some denied)) None"
    by (simp add: deny_world_def world_of_def)
  have 2: "AccessToken denied = []" by (simp add: denied_def)
  from fetchNewToken_empty_token [OF 1 2, of previous] 1 2 show ?thesis by blast
qed

subsection \<open>The cells of a new updater\<close>

text \<open>
  Whatever the configuration and the endpoint: a first response that carries a token
  makes the construction panic in the token store, and an updater that does come back
  has both cells nil, so that reading its token or running a pass of its loop panics.
\<close>

lemma NewTokenUpdater_token_panics:
  assumes "carries_token (responses w (length (posts w)))"
  shows "fst (NewTokenUpdater cfg w) = Panic"
  using assms
  by (auto simp add: NewTokenUpdater_def fetchNewToken_def fetchNewToken_steps_def world_ops
      carries_token_def Value_Swap_def TokenUpdater_literal_def Let_def
      split: http_outcome.splits body_read.splits option.splits)

lemma NewTokenUpdater_returns_nil_cells:
  assumes "fst (NewTokenUpdater cfg w) = Returned (Some t, None)"
  shows "t = TokenUpdater_literal cfg \<and> accessToken t = None \<and> ExpireTimestamp t = None
    \<and> GetAccessToken t = Panic
    \<and> fst (checkAccessToken_default ExpiryDelta_Seconds t w') = Crashed"
proof -
  from assms have "t = TokenUpdater_literal cfg"
    by (auto simp add: NewTokenUpdater_def fetchNewToken_def fetchNewToken_steps_def world_ops
        Value_Swap_def TokenUpdater_literal_def Let_def
        split: http_outcome.splits body_read.splits option.splits if_splits)
  then show ?thesis
    by (simp add: TokenUpdater_literal_def GetAccessToken_def Value_Load_def
        checkAccessToken_default_def Int64_Load_def)
qed

text \<open>
  Claim C3 says that the two atomic cells of an updater returned by \<open>NewTokenUpdater\<close>
  are initialized before first use, so that the token store of the first fetch,
  \<open>GetAccessToken\<close> and the loop's load of the expiry run without a nil dereference.
  The struct literal leaves both pointers nil and nothing assigns them later. The token
  store of the first fetch panics when the response carries a token; when it carries
  none, the updater comes back with both cells nil, and \<open>GetAccessToken\<close> and a pass of
  the loop panic on it.
\<close>

theorem NewTokenUpdater_cells_nil:
  "fst (fetchNewToken (TokenUpdater_literal example_config) grant_world) = Panic
   \<and> fst (NewTokenUpdater example_config deny_world)
       = Returned (Some (TokenUpdater_literal example_config), None)
   \<and> accessToken (TokenUpdater_literal example_config) = None
   \<and> ExpireTimestamp (TokenUpdater_literal example_config) = None
   \<and> GetAccessToken (TokenUpdater_literal example_config) = Panic
   \<and> fst (checkAccessToken_pass ExpiryDelta_Seconds (TokenUpdater_literal example_config) w)
       = Crashed"
  by (simp add: NewTokenUpdater_def fetchNewToken_def fetchNewToken_steps_def world_ops
      Value_Swap_def Value_Load_def Int64_Load_def GetAccessToken_def TokenUpdater_literal_def
      checkAccessToken_pass_def checkAccessToken_default_def example_config_def
      grant_world_def world_of_def deny_world_def granted_def denied_def)

text \<open>
  With both cells allocated a fetch publishes: it returns nil, and \<open>GetAccessToken\<close>
  then returns the token of the response.
\<close>

lemma fetchNewToken_publishes:
  assumes "responses w (length (posts w)) = Response (Bytes b (Some parsedResp)) closeErr"
    and "AccessToken parsedResp \<noteq> []"
    and "accessToken t = Some a"
    and "ExpireTimestamp t = Some x"
  shows "fst (fetchNewToken t w) = Returned None
    \<and> GetAccessToken (fst (snd (fetchNewToken t w))) = Returned (AccessToken parsedResp)"
  using assms
  by (simp add: fetchNewToken_def fetchNewToken_steps_def world_ops Value_Swap_def
      Int64_Swap_def Let_def GetAccessToken_def Value_Load_def Sprintf_v_def)

text \<open>
  Claim C4 says that after a construction whose first fetch delivered a token,
  \<open>GetAccessToken\<close> returns that token. With the defect of claim C3 no such
  construction returns: the endpoint grants \<open>Atza|fresh\<close>, and \<open>NewTokenUpdater\<close>
  panics in the token store.
\<close>

theorem NewTokenUpdater_with_token_panics:
  "AccessToken granted = ''Atza|fresh''
   \<and> responses grant_world (length (posts grant_world))
       = Response (Bytes granted_body (Some granted)) None
   \<and> fst (NewTokenUpdater example_config grant_world) = Panic"
  by (simp add: NewTokenUpdater_def fetchNewToken_def fetchNewToken_steps_def world_ops
      Value_Swap_def TokenUpdater_literal_def grant_world_def world_of_def granted_def)

subsection \<open>Construction\<close>

text \<open>
  Claim C5 says that \<open>NewTokenUpdater\<close> returns a nil refresher and an initialization
  error exactly when its first fetch fails. A first fetch that obtains no token is not a
  failure for the code: the endpoint answers \<open>invalid_grant\<close> with an empty
  \<open>access_token\<close>, \<open>fetchNewToken\<close> returns nil, and the construction returns a
  refresher with a nil error after its one POST. When the first response does carry a
  token, the construction panics in the token store (the nil cell of claim C3) and
  returns nothing.
\<close>

theorem NewTokenUpdater_empty_token_counterexample:
  "AccessToken denied = []
   \<and> Error denied = ''invalid_grant''
   \<and> responses deny_world (length (posts deny_world))
       = Response (Bytes denied_body (Some denied)) None
   \<and> fst (NewTokenUpdater example_config deny_world)
       = Returned (Some (TokenUpdater_literal example_config), None)
   \<and> posts (snd (NewTokenUpdater example_config deny_world)) = [refresh_request example_config]
   \<and> fst (NewTokenUpdater example_config grant_world) = Panic"
  by (simp add: NewTokenUpdater_def fetchNewToken_def fetchNewToken_steps_def world_ops
      Value_Swap_def TokenUpdater_literal_def example_config_def deny_world_def grant_world_def
      world_of_def denied_def granted_def)

text \<open>
  Claim C5 as amended: \<open>NewTokenUpdater\<close> performs one fetch and never a second one:
  the world it leaves is the world after a single \<open>fetchNewToken\<close> on the struct
  literal, with exactly one more POST. It returns a nil refresher exactly when the POST
  fails, the body cannot be read, or the body does not decode, and then the error is that
  of the fetch wrapped behind \<open>accesstoken could not be fetched:\<close>. A response that
  decodes with an empty \<open>access_token\<close> is no failure: the refresher comes back with
  a nil error.
\<close>

theorem NewTokenUpdater_fails_on_error:
  "snd (NewTokenUpdater cfg w) = snd (snd (fetchNewToken (TokenUpdater_literal cfg) w))
   \<and> posts (snd (NewTokenUpdater cfg w)) = posts w @ [refresh_request cfg]
   \<and> ((\<exists>r. fst (NewTokenUpdater cfg w) = Returned (None, r))
       = ((\<exists>s. responses w (length (posts w)) = PostFails s)
          \<or> (\<exists>s c. responses w (length (posts w)) = Response (ReadFails s) c)
          \<or> (\<exists>b c. responses w (length (posts w)) = Response (Bytes b None) c)))
   \<and> (responses w (length (posts w)) = PostFails s \<longrightarrow>
        fst (NewTokenUpdater cfg w)
          = Returned (None, Some (ErrorfW ''accesstoken could not be fetched: '' (PostError s))))
   \<and> (responses w (length (posts w)) = Response (ReadFails s) closeErr \<longrightarrow>
        fst (NewTokenUpdater cfg w)
          = Returned (None, Some (ErrorfW ''accesstoken could not be fetched: ''
              (ReadAllError s))))
   \<and> (responses w (length (posts w)) = Response (Bytes b None) closeErr \<longrightarrow>
        fst (NewTokenUpdater cfg w)
          = Returned (None, Some (ErrorfW ''accesstoken could not be fetched: ''
              (Errorf (''RefreshToken response parse failed. Body: '' @ b)))))
   \<and> (responses w (length (posts w)) = Response (Bytes b (Some parsedResp)) closeErr
        \<and> AccessToken parsedResp = [] \<longrightarrow>
        fst (NewTokenUpdater cfg w) = Returned (Some (TokenUpdater_literal cfg), None))"
proof -
  have w: "snd (NewTokenUpdater cfg w) = snd (snd (fetchNewToken (TokenUpdater_literal cfg) w))"
    by (simp add: NewTokenUpdater_def Let_def split: prod.splits outcome.splits option.splits)
  have p: "posts (snd (NewTokenUpdater cfg w)) = posts w @ [refresh_request cfg]"
    using fetchNewToken_posts [of "TokenUpdater_literal cfg" w]
    by (simp add: w TokenUpdater_literal_def)
  have n: "(\<exists>r. fst (NewTokenUpdater cfg w) = Returned (None, r))
       = ((\<exists>s. responses w (length (posts w)) = PostFails s)
          \<or> (\<exists>s c. responses w (length (posts w)) = Response (ReadFails s) c)
          \<or> (\<exists>b c. responses w (length (posts w)) = Response (Bytes b None) c))"
    by (auto simp add: NewTokenUpdater_def fetchNewToken_def fetchNewToken_steps_def world_ops
        Value_Swap_def TokenUpdater_literal_def Let_def
        split: http_outcome.splits body_read.splits option.splits)
  have e1: "responses w (length (posts w)) = PostFails s \<longrightarrow>
        fst (NewTokenUpdater cfg w)
          = Returned (None, Some (ErrorfW ''accesstoken could not be fetched: '' (PostError s)))"
    by (simp add: NewTokenUpdater_def fetchNewToken_def fetchNewToken_steps_def world_ops
        TokenUpdater_literal_def Let_def)
  have e2: "responses w (length (posts w)) = Response (ReadFails s) closeErr \<longrightarrow>
        fst (NewTokenUpdater cfg w)
          = Returned (None, Some (ErrorfW ''accesstoken could not be fetched: ''
              (ReadAllError s)))"
    by (simp add: NewTokenUpdater_def fetchNewToken_def fetchNewToken_steps_def world_ops
        TokenUpdater_literal_def Let_def)
  have e3: "responses w (length (posts w)) = Response (Bytes b None) closeErr \<longrightarrow>
        fst (NewTokenUpdater cfg w)
          = Returned (None, Some (ErrorfW ''accesstoken could not be fetched: ''
              (Errorf (''RefreshToken response parse failed. Body: '' @ b))))"
    by (simp add: NewTokenUpdater_def fetchNewToken_def fetchNewToken_steps_def world_ops
        TokenUpdater_literal_def Let_def)
  have s: "responses w (length (posts w)) = Response (Bytes b (Some parsedResp)) closeErr
        \<and> AccessToken parsedResp = [] \<longrightarrow>
        fst (NewTokenUpdater cfg w) = Returned (Some (TokenUpdater_literal cfg), None)"
    by (simp add: NewTokenUpdater_def fetchNewToken_def fetchNewToken_steps_def world_ops
        TokenUpdater_literal_def Let_def)
  from w p n e1 e2 e3 s show ?thesis by blast
qed

text \<open>
  The amended claim at work: an endpoint that cannot be reached, one whose body breaks
  off, one that answers with a page that is no JSON, and one that denies the grant.
\<close>

theorem NewTokenUpdater_fails_on_error_witness:
  "responses offline_world (length (posts offline_world)) = PostFails ''dial tcp: i/o timeout''
   \<and> fst (NewTokenUpdater example_config offline_world)
       = Returned (None, Some (ErrorfW ''accesstoken could not be fetched: ''
           (PostError ''dial tcp: i/o timeout'')))
   \<and> posts (snd (NewTokenUpdater example_config offline_world))
       = posts offline_world @ [refresh_request example_config]
   \<and> responses (world_of (Response (ReadFails ''unexpected EOF'') None))
         (length (posts (world_of (Response (ReadFails ''unexpected EOF'') None))))
       = Response (ReadFails ''unexpected EOF'') None
   \<and> fst (NewTokenUpdater example_config (world_of (Response (ReadFails ''unexpected EOF'') None)))
       = Returned (None, Some (ErrorfW ''accesstoken could not be fetched: ''
           (ReadAllError ''unexpected EOF'')))
   \<and> responses (world_of (Response (Bytes ''<html>'' None) None))
         (length (posts (world_of (Response (Bytes ''<html>'' None) None))))
       = Response (Bytes ''<html>'' None) None
   \<and> fst (NewTokenUpdater example_config (world_of (Response (Bytes ''<html>'' None) None)))
       = Returned (None, Some (ErrorfW ''accesstoken could not be fetched: ''
           (Errorf (''RefreshToken response parse failed. Body: '' @ ''<html>''))))
   \<and> responses deny_world (length (posts deny_world))
       = Response (Bytes denied_body (Some denied)) None
   \<and> AccessToken denied = []
   \<and> fst (NewTokenUpdater example_config deny_world)
       = Returned (Some (TokenUpdater_literal example_config), None)"
proof -
  have 1: "responses offline_world (length (posts offline_world))
      = PostFails ''dial tcp: i/o timeout''"
    by (simp add: offline_world_def world_of_def)
  have 2: "responses (world_of (Response (ReadFails ''unexpected EOF'') None))
         (length (posts (world_of (Response (ReadFails ''unexpected EOF'') None))))
       = Response (ReadFails ''unexpected EOF'') None"
    by (simp add: world_of_def)
  have 3: "responses (world_of (Response (Bytes ''<html>'' None) None))
         (length (posts (world_of (Response (Bytes ''<html>'' None) None))))
       = Response (Bytes ''<html>'' None) None"
    by (simp add: world_of_def)
  have 4: "responses deny_world (length (posts deny_world))
      = Response (Bytes denied_body (Some denied)) None"
    by (simp add: deny_world_def world_of_def)
  have 5: "AccessToken denied = []" by (simp add: denied_def)
  note one = NewTokenUpdater_fails_on_error
      [where cfg = example_config and w = offline_world, THEN conjunct2, THEN conjunct1]
  note post = NewTokenUpdater_fails_on_error
      [where cfg = example_config and w = offline_world and s = "''dial tcp: i/o timeout''",
       THEN conjunct2, THEN conjunct2, THEN conjunct2, THEN conjunct1, rule_format, OF 1]
  note read = NewTokenUpdater_fails_on_error
      [where cfg = example_config
         and w = "world_of (Response (ReadFails ''unexpected EOF'') None)"
         and s = "''unexpected EOF''" and closeErr = None,
       THEN conjunct2, THEN conjunct2, THEN conjunct2, THEN conjunct2, THEN conjunct1,
       rule_format, OF 2]
  note parse = NewTokenUpdater_fails_on_error
      [where cfg = example_config and w = "world_of (Response (Bytes ''<html>'' None) None)"
         and b = "''<html>''" and closeErr = None,
       THEN conjunct2, THEN conjunct2, THEN conjunct2, THEN conjunct2, THEN conjunct2,
       THEN conjunct1, rule_format, OF 3]
  note empty = NewTokenUpdater_fails_on_error
      [where cfg = example_config and w = deny_world and b = denied_body
         and parsedResp = denied and closeErr = None,
       THEN conjunct2, THEN conjunct2, THEN conjunct2, THEN conjunct2, THEN conjunct2,
       THEN conjunct2, rule_format, OF conjI [OF 4 5]]
  show ?thesis by (intro conjI 1 post one 2 read 3 parse 4 5 empty)
qed

subsection \<open>Reading a token that was never stored\<close>

text \<open>
  Claim C10 says that while no token has been published \<open>GetAccessToken\<close> returns the
  four-character string \<open><nil>\<close>. On the updater that \<open>NewTokenUpdater\<close> returns after
  a response without a token the call panics, the cell pointer being nil (the defect of
  claim C3); and where the cell is allocated and empty the string returned is
  \<open><nil>\<close>, which has five characters.
\<close>

theorem GetAccessToken_unset_counterexample:
  "fst (NewTokenUpdater example_config deny_world)
     = Returned (Some (TokenUpdater_literal example_config), None)
   \<and> GetAccessToken (TokenUpdater_literal example_config) = Panic
   \<and> GetAccessToken unset = Returned ''<nil>''
   \<and> length ''<nil>'' = 5"
  by (simp add: NewTokenUpdater_def fetchNewToken_def fetchNewToken_steps_def world_ops
      Value_Load_def GetAccessToken_def TokenUpdater_literal_def Sprintf_v_def deny_world_def
      world_of_def denied_def unset_def)

text \<open>
  Claim C10 as amended: on an updater whose token cell is allocated and has never been
  stored to, any number of fetches whose responses carry no token leave the updater as
  it is, and \<open>GetAccessToken\<close> returns the five-character string \<open><nil>\<close>, not the
  empty string.
\<close>

theorem GetAccessToken_unset:
  assumes "accessToken t = Some None"
    and "\<forall>k<n. \<not> carries_token (responses w (length (posts w) + k))"
  shows "\<exists>w'. refetch n t w = Returned (t, w')
     \<and> GetAccessToken t = Returned ''<nil>'' \<and> length ''<nil>'' = 5 \<and> ''<nil>'' \<noteq> []"
  using refetch_without_token [OF assms(2), of t] assms(1)
  by (auto simp add: GetAccessToken_def Value_Load_def Sprintf_v_def)

text \<open>The amended claim at work: two fetches against the endpoint that denies.\<close>

theorem GetAccessToken_unset_witness:
  "accessToken unset = Some None
   \<and> \<not> carries_token (responses deny_world (length (posts deny_world) + 0))
   \<and> \<not> carries_token (responses deny_world (length (posts deny_world) + 1))
   \<and> (\<exists>w'. refetch 2 unset deny_world = Returned (unset, w')
         \<and> GetAccessToken unset = Returned ''<nil>'' \<and> length ''<nil>'' = 5 \<and> ''<nil>'' \<noteq> [])"
proof -
  have a: "accessToken unset = Some None" by (simp add: unset_def)
  have c: "\<not> carries_token (responses deny_world (length (posts deny_world) + 0))"
    "\<not> carries_token (responses deny_world (length (posts deny_world) + 1))"
    by (simp_all add: carries_token_def deny_world_def world_of_def denied_def)
  have b: "\<forall>k<2. \<not> carries_token (responses deny_world (length (posts deny_world) + k))"
    by (simp add: carries_token_def deny_world_def world_of_def denied_def)
  from GetAccessToken_unset [OF a b] a c show ?thesis by blast
qed

section \<open>Properties of the background loop\<close>

subsection \<open>The quit channel\<close>

lemma default_keeps_channels:
  "quitSignal (fst (snd (checkAccessToken_default d t w))) = quitSignal t
   \<and> pending (snd (snd (checkAccessToken_default d t w))) = pending w
   \<and> fst (checkAccessToken_default d t w) \<noteq> Stopped"
proof (cases "ExpireTimestamp t")
  case None
  then show ?thesis by (simp add: checkAccessToken_default_def Int64_Load_def)
next
  case (Some x)
  obtain r w1 where s: "secondsUntilExpired x w = (r, w1)" by (cases "secondsUntilExpired x w")
  then have p1: "pending w1 = pending w"
    by (auto simp add: secondsUntilExpired_def time_Now_def Let_def)
  show ?thesis
  proof (cases "sint r \<le> sint d")
    case True
    obtain res t' w' where f: "fetchNewToken t w1 = (res, t', w')"
      by (cases "fetchNewToken t w1")
    from fetchNewToken_quitSignal [of t w1] f have q: "quitSignal t' = quitSignal t" by simp
    from fetchNewToken_pending [of t w1] f p1 have p: "pending w' = pending w" by simp
    from Some s True f q p show ?thesis
      by (simp add: checkAccessToken_default_def Int64_Load_def log_Errorf_def
          split: outcome.splits option.splits)
  next
    case False
    with Some s p1 show ?thesis
      by (simp add: checkAccessToken_default_def Int64_Load_def time_Sleep_def)
  qed
qed

lemma pass_nil_channel:
  assumes "quitSignal t = None"
  shows "quitSignal (fst (snd (checkAccessToken_pass d t w))) = None
   \<and> pending (snd (snd (checkAccessToken_pass d t w))) = pending w
   \<and> fst (checkAccessToken_pass d t w) \<noteq> Stopped"
  using assms default_keeps_channels [of d t w] by (simp add: checkAccessToken_pass_def)

text \<open>
  A loop whose quit channel is nil never returns: whatever the fuel, it is still going or
  it has panicked, and every sender that waited still waits.
\<close>

lemma loop_nil_channel:
  assumes "quitSignal t = None"
  shows "checkAccessToken n d t w = None
    \<or> (\<exists>t' w'. checkAccessToken n d t w = Some (Crashed, t', w') \<and> pending w' = pending w)"
  using assms
proof (induction n arbitrary: t w)
  case 0
  then show ?case by simp
next
  case (Suc n)
  obtain st t1 w1 where p: "checkAccessToken_pass d t w = (st, t1, w1)"
    by (cases "checkAccessToken_pass d t w")
  from pass_nil_channel [OF Suc.prems, of d w] p
  have q: "quitSignal t1 = None" and pe: "pending w1 = pending w" and ns: "st \<noteq> Stopped"
    by simp_all
  show ?case
  proof (cases st)
    case Continue
    with p have "checkAccessToken (Suc n) d t w = checkAccessToken n d t1 w1" by simp
    with Suc.IH [OF q, of w1] pe show ?thesis by auto
  next
    case Stopped
    with ns show ?thesis by simp
  next
    case Crashed
    with p pe show ?thesis by simp
  qed
qed

text \<open>
  A stop signal on the updater's own channel ends the loop: with a sender waiting there,
  the loop returns in its next pass, whatever the fuel from one up, having received the
  value and logged; it sends no POST.
\<close>

lemma loop_stops_on_signal:
  assumes "quitSignal t = Some c" and "0 < pending w c"
  shows "checkAccessToken (Suc n) d t w =
      Some (Stopped, t, log_Infof ''Received signal to stop token updates.'' (chan_receive c w))
    \<and> posts (log_Infof ''Received signal to stop token updates.'' (chan_receive c w)) = posts w"
  using assms by (simp add: checkAccessToken_pass_def log_Infof_def chan_receive_def)

text \<open>
  Claim C6 says that a stop signal ends the loop, and that \<open>Close\<close> on a client built
  by \<open>NewSellingPartnerClient\<close> delivers it. The constructor makes the channel and keeps
  it in the client, but the \<open>TokenUpdaterConfig\<close> it builds has no \<open>QuitSignal\<close>, so
  the updater's channel is nil. After \<open>Close\<close> the sender waits on channel 0, and the
  loop of the updater never returns: for any fuel it is still going or has panicked, with
  the sender still waiting.
\<close>

theorem Close_does_not_reach_loop:
  "\<exists>s w1 t.
     NewSellingPartnerClient keep_config example_Config deny_world = (Returned (Some s, None), w1)
     \<and> t = TokenUpdater_of (Report s)
     \<and> client_quitSignal s = Some 0
     \<and> quitSignal t = None
     \<and> pending (Close s w1) 0 = 1
     \<and> (checkAccessToken n ExpiryDelta_Seconds t (Close s w1) = None
        \<or> (\<exists>t' w'. checkAccessToken n ExpiryDelta_Seconds t (Close s w1) = Some (Crashed, t', w')
              \<and> pending w' 0 = 1))"
proof -
  let ?t = "TokenUpdater_literal
    \<lparr>RefreshToken = ''Atzr|refresh'', ClientID = ''amzn1.application'',
     ClientSecret = ''secret'', QuitSignal = None\<rparr>"
  let ?s = "\<lparr>client_quitSignal = Some 0,
     Report = \<lparr>Endpoint = ''https://sellingpartnerapi-na.amazon.com'', TokenUpdater_of = ?t\<rparr>\<rparr>"
  obtain w1 where n: "NewSellingPartnerClient keep_config example_Config deny_world
      = (Returned (Some ?s, None), w1)"
    and p: "pending w1 0 = 0"
    by (simp add: NewSellingPartnerClient_def make_chan_def NewTokenUpdater_def fetchNewToken_def
        fetchNewToken_steps_def world_ops RunInBackground_def keep_config_def example_Config_def
        TokenUpdater_literal_def deny_world_def world_of_def denied_def)
  have q: "quitSignal ?t = None" by (simp add: TokenUpdater_literal_def)
  have c: "pending (Close ?s w1) 0 = 1" using p by (simp add: Close_def)
  from loop_nil_channel [OF q, of n ExpiryDelta_Seconds "Close ?s w1"] c
  have "checkAccessToken n ExpiryDelta_Seconds ?t (Close ?s w1) = None
        \<or> (\<exists>t' w'. checkAccessToken n ExpiryDelta_Seconds ?t (Close ?s w1) = Some (Crashed, t', w')
              \<and> pending w' 0 = 1)"
    by auto
  with n q c show ?thesis by simp
qed

subsection \<open>Sleeping or fetching\<close>

lemma sint_Second: "sint Second = 1000000000"
  by (simp add: Second_def)

lemma sint_sub_exact:
  fixes a b :: int64
  assumes "- (2 ^ 63) \<le> sint a - sint b" and "sint a - sint b < 2 ^ 63"
  shows "sint (a - b) = sint a - sint b"
  using assms by (simp add: sint_word_ariths signed_take_bit_int_eq_self)

lemma sint_seconds_exact:
  fixes a :: int64
  assumes "- (2 ^ 63) \<le> sint a * 1000000000" and "sint a * 1000000000 < 2 ^ 63"
  shows "sint (a * Second) = sint a * 1000000000"
  using assms by (simp add: sint_word_ariths signed_take_bit_int_eq_self sint_Second)

lemma sleep_duration_exact:
  fixes r d :: int64
  assumes "sint d < sint r" and "(sint r - sint d) * 1000000000 < 2 ^ 63"
  shows "sint ((r - d) * Second) = (sint r - sint d) * 1000000000"
proof -
  have pos: "0 < sint r - sint d" using assms(1) by simp
  then have le: "sint r - sint d \<le> (sint r - sint d) * 1000000000" by simp
  have "sint (r - d) = sint r - sint d"
    using pos le assms(2) by (intro sint_sub_exact) simp_all
  moreover have "sint ((r - d) * Second) = sint (r - d) * 1000000000"
    using pos assms(2) calculation by (intro sint_seconds_exact) simp_all
  ultimately show ?thesis by simp
qed

text \<open>
  The remaining seconds \<open>secondsUntilExpired\<close> computes are the stored expiry minus the
  whole seconds of the clock, as long as both the clock's seconds and the difference are
  within \<open>int64\<close>.
\<close>

lemma secondsUntilExpired_exact:
  assumes "- (2 ^ 63) \<le> clock w (reads w) div 1000000000"
    and "clock w (reads w) div 1000000000 < 2 ^ 63"
    and "- (2 ^ 63) \<le> sint x - clock w (reads w) div 1000000000"
    and "sint x - clock w (reads w) div 1000000000 < 2 ^ 63"
  shows "sint (fst (secondsUntilExpired x w)) = sint x - clock w (reads w) div 1000000000"
proof -
  have u: "sint (Unix (clock w (reads w))) = clock w (reads w) div 1000000000"
    using assms(1,2) by (simp add: Unix_def sint_sbintrunc' signed_take_bit_int_eq_self)
  have "fst (secondsUntilExpired x w) = x - Unix (clock w (reads w))"
    by (simp add: secondsUntilExpired_def time_Now_def)
  then show ?thesis
    using sint_sub_exact [of x "Unix (clock w (reads w))"] assms(3,4) by (simp add: u)
qed

text \<open>
  Claim C7 says that every pass of the loop sleeps for exactly the remaining seconds minus
  the delta when the remaining seconds exceed the delta, and fetches otherwise. Three
  passes do neither or not exactly that. On the updater that \<open>NewTokenUpdater\<close> returns,
  the expiry cell is nil and the pass panics (the defect of claim C3). With the expiry
  ten thousand million seconds ahead and a delta of 60, the duration
  \<open>(10000000000 - 60) * time.Second\<close> overflows \<open>int64\<close> and the pass hands a negative
  duration to \<open>time.Sleep\<close>. With a stop signal waiting and 100 seconds remaining, the
  pass returns without sleeping.
\<close>

theorem checkAccessToken_pass_counterexample:
  "fst (NewTokenUpdater example_config deny_world)
     = Returned (Some (TokenUpdater_literal example_config), None)
   \<and> checkAccessToken_pass 60 (TokenUpdater_literal example_config) deny_world
     = (Crashed, TokenUpdater_literal example_config, deny_world)
   \<and> fst (secondsUntilExpired 11700000000 deny_world) = 10000000000
   \<and> map sint (slept (snd (snd (checkAccessToken_pass 60 distant deny_world))))
     = [- 8446744133709551616]
   \<and> fst (secondsUntilExpired 1700000100 (deny_world\<lparr>pending := (\<lambda>c. 1)\<rparr>)) = 100
   \<and> fst (checkAccessToken_pass 60 signalled (deny_world\<lparr>pending := (\<lambda>c. 1)\<rparr>)) = Stopped
   \<and> slept (snd (snd (checkAccessToken_pass 60 signalled (deny_world\<lparr>pending := (\<lambda>c. 1)\<rparr>))))
     = []"
  by (simp add: NewTokenUpdater_def fetchNewToken_def fetchNewToken_steps_def world_ops
      TokenUpdater_literal_def checkAccessToken_pass_def checkAccessToken_default_def
      Int64_Load_def secondsUntilExpired_def Unix_def Second_def time_Sleep_def
      log_Infof_def chan_receive_def example_config_def deny_world_def world_of_def denied_def
      distant_def signalled_def previous_def)

text \<open>
  Claim C7 as amended: in every pass in which no stop signal waits and the expiry cell is
  allocated, with the remaining seconds as \<open>secondsUntilExpired\<close> computes them: if
  they exceed the delta and the difference in nanoseconds fits \<open>int64\<close>, the pass sleeps
  for exactly that difference and sends no POST; if they are at or below the delta, the
  pass fetches once and does not sleep, and a fetch that returns an error leaves the
  updater as it was, has the error's text logged, and lets the loop go straight on to
  its next pass.
\<close>

theorem checkAccessToken_pass_sleep_or_fetch:
  assumes "ExpireTimestamp t = Some x" and "\<not> stop_waiting t w"
  shows
   "(sint d < sint (fst (secondsUntilExpired x w))
       \<and> (sint (fst (secondsUntilExpired x w)) - sint d) * 1000000000 < 2 ^ 63
     \<longrightarrow> checkAccessToken_pass d t w
           = (Continue, t, time_Sleep ((fst (secondsUntilExpired x w) - d) * Second)
                             (snd (secondsUntilExpired x w)))
         \<and> sint ((fst (secondsUntilExpired x w) - d) * Second)
           = (sint (fst (secondsUntilExpired x w)) - sint d) * 1000000000
         \<and> posts (snd (snd (checkAccessToken_pass d t w))) = posts w
         \<and> slept (snd (snd (checkAccessToken_pass d t w)))
             = slept w @ [(fst (secondsUntilExpired x w) - d) * Second])
    \<and> (sint (fst (secondsUntilExpired x w)) \<le> sint d
     \<longrightarrow> posts (snd (snd (checkAccessToken_pass d t w))) = posts w @ [refresh_request (config t)]
         \<and> slept (snd (snd (checkAccessToken_pass d t w))) = slept w
         \<and> (\<forall>e. fst (fetchNewToken t (snd (secondsUntilExpired x w))) = Returned (Some e)
              \<longrightarrow> checkAccessToken_pass d t w
                    = (Continue, t, log_Errorf (Error_string e)
                         (snd (snd (fetchNewToken t (snd (secondsUntilExpired x w))))))
                  \<and> checkAccessToken (Suc n) d t w
                    = checkAccessToken n d t (log_Errorf (Error_string e)
                         (snd (snd (fetchNewToken t (snd (secondsUntilExpired x w))))))))"
proof -
  obtain r w1 where s: "secondsUntilExpired x w = (r, w1)" by (cases "secondsUntilExpired x w")
  then have w1: "posts w1 = posts w" "slept w1 = slept w"
    by (auto simp add: secondsUntilExpired_def time_Now_def Let_def)
  have pass: "checkAccessToken_pass d t w = checkAccessToken_default d t w"
    using assms(2) by (simp add: checkAccessToken_pass_def stop_waiting_def split: option.splits)
  have sleep: "checkAccessToken_default d t w = (Continue, t, time_Sleep ((r - d) * Second) w1)"
    if "sint d < sint r"
    using that assms(1) s by (simp add: checkAccessToken_default_def Int64_Load_def)
  have fetch: "checkAccessToken_default d t w =
      (case fetchNewToken t w1 of
         (Panic, t', w') \<Rightarrow> (Crashed, t', w')
       | (Returned (Some err), t', w') \<Rightarrow> (Continue, t', log_Errorf (Error_string err) w')
       | (Returned None, t', w') \<Rightarrow> (Continue, t', w'))"
    if "sint r \<le> sint d"
    using that assms(1) s by (simp add: checkAccessToken_default_def Int64_Load_def)
  have a: "checkAccessToken_pass d t w = (Continue, t, time_Sleep ((r - d) * Second) w1)
         \<and> sint ((r - d) * Second) = (sint r - sint d) * 1000000000
         \<and> posts (snd (snd (checkAccessToken_pass d t w))) = posts w
         \<and> slept (snd (snd (checkAccessToken_pass d t w))) = slept w @ [(r - d) * Second]"
    if "sint d < sint r" and "(sint r - sint d) * 1000000000 < 2 ^ 63"
    using sleep [OF that(1)] sleep_duration_exact [OF that] w1
    by (simp add: pass time_Sleep_def)
  obtain res t' w' where f: "fetchNewToken t w1 = (res, t', w')" by (cases "fetchNewToken t w1")
  have fp: "posts w' = posts w @ [refresh_request (config t)]"
    using fetchNewToken_posts [of t w1] f w1 by simp
  have fs: "slept w' = slept w"
    using fetchNewToken_slept [of t w1] f w1 by simp
  have b1: "posts (snd (snd (checkAccessToken_pass d t w))) = posts w @ [refresh_request (config t)]
         \<and> slept (snd (snd (checkAccessToken_pass d t w))) = slept w"
    if "sint r \<le> sint d"
    using fetch [OF that] f fp fs
    by (simp add: pass log_Errorf_def split: outcome.splits option.splits)
  have b2: "checkAccessToken_pass d t w = (Continue, t, log_Errorf (Error_string e) w')
         \<and> checkAccessToken (Suc n) d t w = checkAccessToken n d t (log_Errorf (Error_string e) w')"
    if "sint r \<le> sint d" and "res = Returned (Some e)" for e
  proof -
    from fetchNewToken_error_keeps [of t w1 e] f that(2) have "t' = t" by simp
    with fetch [OF that(1)] f that(2) show ?thesis by (simp add: pass)
  qed
  from a b1 b2 show ?thesis unfolding s f fst_conv snd_conv by blast
qed

text \<open>
  The two branches at work, with a delta of 60: 100 seconds before the expiry the pass
  sleeps 40 seconds; 30 seconds before it, with the endpoint out of reach, the pass sends
  its POST, logs the error and leaves the updater alone.
\<close>

theorem checkAccessToken_pass_sleep_or_fetch_witness:
  "ExpireTimestamp rested = Some 1700000100
   \<and> \<not> stop_waiting rested deny_world
   \<and> secondsUntilExpired 1700000100 deny_world = (100, deny_world\<lparr>reads := Suc 0\<rparr>)
   \<and> ExpireTimestamp previous = Some 1700000030
   \<and> \<not> stop_waiting previous offline_world
   \<and> secondsUntilExpired 1700000030 offline_world = (30, offline_world\<lparr>reads := Suc 0\<rparr>)
   \<and> checkAccessToken_pass 60 rested deny_world
     = (Continue, rested, time_Sleep 40000000000 (deny_world\<lparr>reads := Suc 0\<rparr>))
   \<and> posts (snd (snd (checkAccessToken_pass 60 rested deny_world))) = []
   \<and> posts (snd (snd (checkAccessToken_pass 60 previous offline_world)))
     = [refresh_request example_config]
   \<and> slept (snd (snd (checkAccessToken_pass 60 previous offline_world))) = []
   \<and> checkAccessToken_pass 60 previous offline_world
     = (Continue, previous, log_Errorf ''dial tcp: i/o timeout''
          (offline_world\<lparr>reads := Suc 0, posts := [refresh_request example_config]\<rparr>))"
proof -
  have r1: "ExpireTimestamp rested = Some 1700000100" by (simp add: rested_def previous_def)
  have r2: "\<not> stop_waiting rested deny_world" by (simp add: stop_waiting_def rested_def previous_def deny_world_def world_of_def)
  have r3: "secondsUntilExpired 1700000100 deny_world = (100, deny_world\<lparr>reads := Suc 0\<rparr>)"
    by (simp add: secondsUntilExpired_def time_Now_def Unix_def deny_world_def world_of_def)
  have r4: "sint (60 :: int64) < sint (100 :: int64)
     \<and> (sint (100 :: int64) - sint (60 :: int64)) * 1000000000 < 2 ^ 63" by simp
  have r5: "posts deny_world = []" by (simp add: deny_world_def world_of_def)
  have p1: "ExpireTimestamp previous = Some 1700000030" by (simp add: previous_def)
  have p2: "\<not> stop_waiting previous offline_world" by (simp add: stop_waiting_def previous_def offline_world_def world_of_def)
  have p3: "secondsUntilExpired 1700000030 offline_world = (30, offline_world\<lparr>reads := Suc 0\<rparr>)"
    by (simp add: secondsUntilExpired_def time_Now_def Unix_def offline_world_def world_of_def)
  have p4: "fetchNewToken previous (offline_world\<lparr>reads := Suc 0\<rparr>)
     = (Returned (Some (PostError ''dial tcp: i/o timeout'')), previous,
        offline_world\<lparr>reads := Suc 0, posts := [refresh_request example_config]\<rparr>)"
    by (simp add: fetchNewToken_def fetchNewToken_steps_def world_ops offline_world_def
        world_of_def previous_def)
  have p5: "sint (30 :: int64) \<le> sint (60 :: int64)" by simp
  have p6: "posts offline_world = []" "slept offline_world = []" "config previous = example_config"
    by (simp_all add: offline_world_def world_of_def previous_def)
  note sleeping = checkAccessToken_pass_sleep_or_fetch
    [OF r1 r2, of 60 0, unfolded r3 fst_conv snd_conv, THEN conjunct1, rule_format, OF r4]
  note fetching = checkAccessToken_pass_sleep_or_fetch
    [OF p1 p2, of 60 0, unfolded p3 fst_conv snd_conv, THEN conjunct2, rule_format, OF p5]
  have a: "checkAccessToken_pass 60 rested deny_world
     = (Continue, rested, time_Sleep 40000000000 (deny_world\<lparr>reads := Suc 0\<rparr>))"
    using sleeping [THEN conjunct1] by (simp add: Second_def)
  have b: "posts (snd (snd (checkAccessToken_pass 60 rested deny_world))) = []"
    using sleeping [THEN conjunct2, THEN conjunct2, THEN conjunct1] by (simp only: r5)
  have c: "posts (snd (snd (checkAccessToken_pass 60 previous offline_world)))
     = [refresh_request example_config]"
    using fetching [THEN conjunct1] by (simp only: p6 append_Nil)
  have d: "slept (snd (snd (checkAccessToken_pass 60 previous offline_world))) = []"
    using fetching [THEN conjunct2, THEN conjunct1] by (simp only: p6)
  have e: "checkAccessToken_pass 60 previous offline_world
     = (Continue, previous, log_Errorf ''dial tcp: i/o timeout''
          (offline_world\<lparr>reads := Suc 0, posts := [refresh_request example_config]\<rparr>))"
    using fetching [THEN conjunct2, THEN conjunct2, rule_format,
        of "PostError ''dial tcp: i/o timeout''"]
    by (simp add: p4)
  from r1 r2 r3 p1 p2 p3 a b c d e show ?thesis by blast
qed

section \<open>Properties of the call executor\<close>


subsection \<open>The query string\<close>

lemma hexdigit_in: "hexdigit n \<in> set ''0123456789ABCDEF''"
  unfolding hexdigit_def by (rule nth_mem) simp

lemma hexdigit_not_question: "hexdigit n \<noteq> CHR ''?''"
  using hexdigit_in [of n] by auto

lemma unreserved_not_question: "unreserved c \<Longrightarrow> c \<noteq> CHR ''?''"
  by (auto simp add: unreserved_def)

lemma escape_byte_no_question: "CHR ''?'' \<notin> set (escape_byte c)"
proof (cases "unreserved c")
  case True
  then show ?thesis using unreserved_not_question [of c] by (auto simp add: escape_byte_def)
next
  case False
  then show ?thesis
    using hexdigit_not_question [of "of_char c div 16"]
      hexdigit_not_question [of "of_char c mod 16"]
    by (simp add: escape_byte_def)
qed

lemma escape_no_question: "CHR ''?'' \<notin> set (escape s)"
  by (simp add: escape_def escape_byte_no_question)

lemma join_pairs_no_question: "CHR ''?'' \<notin> set (join_pairs kvs)"
  by (induction kvs rule: join_pairs.induct) (simp_all add: escape_no_question)

lemma encodeQuery_no_question: "CHR ''?'' \<notin> set (encodeQuery params)"
  by (simp add: encodeQuery_def join_pairs_no_question)

text \<open>
  A parameter supplied after the others is encoded after them: the query string grows at
  its end.
\<close>

lemma join_pairs_append:
  "join_pairs (kvs @ [(k, v)]) =
     (if kvs = [] then [] else join_pairs kvs @ ''&'') @ escape k @ ''='' @ escape v"
  by (induction kvs rule: join_pairs.induct) simp_all

lemma encodeQuery_append:
  "encodeQuery (params @ [(k, [v])]) =
     (if query_pairs params = [] then [] else encodeQuery params @ ''&'')
     @ escape k @ ''='' @ escape v"
  by (simp add: encodeQuery_def query_pairs_def join_pairs_append)

















subsection \<open>The cases of the test\<close>

text \<open>
  The five cases of \<open>Test_call_Execute\<close>, built as the test builds them: the URL the
  transport saw and the response that came back are the ones the test wants.
\<close>

lemma Test_call_Execute:
  "Execute decode_dummyBody decode_ErrorList
     (WithParseErrorListOnError False (WithBody [] (WithQueryParams [] (NewCall ''GET'' ''/message''))))
     (mockResponse 200 all_ok_body)
   = (Inr \<lparr>ResponseBody = Some all_ok, ErrorList = None\<rparr>,
      (mockResponse 200 all_ok_body)
        \<lparr>req := Some \<lparr>Method = ''GET'',
            URL = ''https://sellingpartnerapi-na.amazon.com/message'',
            Header = [], Body = None\<rparr>\<rparr>)"
  "Execute decode_dummyBody decode_ErrorList
     (WithRestrictedDataToken ''ABCDED''
       (WithParseErrorListOnError False
         (WithBody [] (WithQueryParams [] (NewCall ''GET'' ''/message'')))))
     (mockResponse 200 all_ok_body)
   = (Inr \<lparr>ResponseBody = Some all_ok, ErrorList = None\<rparr>,
      (mockResponse 200 all_ok_body)
        \<lparr>req := Some \<lparr>Method = ''GET'',
            URL = ''https://sellingpartnerapi-na.amazon.com/message'',
            Header = [RestrictedDataToken ''ABCDED''], Body = None\<rparr>\<rparr>)"
  "Execute decode_dummyBody decode_ErrorList
     (WithParseErrorListOnError False
       (WithBody hello_body (WithQueryParams [(''final'', [''true''])] (NewCall ''POST'' ''/message''))))
     (mockResponse 200 all_ok_body)
   = (Inr \<lparr>ResponseBody = Some all_ok, ErrorList = None\<rparr>,
      (mockResponse 200 all_ok_body)
        \<lparr>req := Some \<lparr>Method = ''POST'',
            URL = ''https://sellingpartnerapi-na.amazon.com/message?final=true'',
            Header = [ContentType ''application/json''], Body = Some hello_body\<rparr>\<rparr>)"
  "Execute decode_dummyBody decode_ErrorList
     (WithParseErrorListOnError False
       (WithBody [] (WithQueryParams [] (NewCall ''DELETE'' ''/message/4711''))))
     (mockResponse 200 [])
   = (Inr \<lparr>ResponseBody = None, ErrorList = None\<rparr>,
      (mockResponse 200 [])
        \<lparr>req := Some \<lparr>Method = ''DELETE'',
            URL = ''https://sellingpartnerapi-na.amazon.com/message/4711'',
            Header = [], Body = None\<rparr>\<rparr>)"
  "Execute decode_dummyBody decode_ErrorList
     (WithParseErrorListOnError True
       (WithBody [] (WithQueryParams [] (NewCall ''DELETE'' ''/message/4711''))))
     (mockResponse 500 errors_4711_body)
   = (Inr \<lparr>ResponseBody = None, ErrorList = Some errors_4711\<rparr>,
      (mockResponse 500 errors_4711_body)
        \<lparr>req := Some \<lparr>Method = ''DELETE'',
            URL = ''https://sellingpartnerapi-na.amazon.com/message/4711'',
            Header = [], Body = None\<rparr>\<rparr>)"
  by (simp_all add: Execute_def Do_def GetEndpoint_def build_request_def compose_url_def
      is_success_def mockResponse_def NorthAmerica_def decode_dummyBody_def decode_ErrorList_def
      NewCall_def WithQueryParams_def WithBody_def WithRestrictedDataToken_def
      WithParseErrorListOnError_def encodeQuery_def query_pairs_def escape_def escape_byte_def
      unreserved_def hello_body_def all_ok_body_def errors_4711_body_def)

subsection \<open>Payload or error list\<close>

text \<open>
  Claim C8: whenever \<open>Execute\<close> returns a \<open>CallResponse\<close>, the success payload and the
  error list are not both populated, and both are absent exactly when the transport
  returned an empty body with a success status.
\<close>

theorem Execute_payload_or_errors:
  assumes "fst (Execute decodeBody decodeErrorList c client) = Inr r"
  shows "\<not> (ResponseBody r \<noteq> None \<and> ErrorList r \<noteq> None)
    \<and> ((ResponseBody r = None \<and> ErrorList r = None)
        = (errResp client = None \<and> Body_bytes (resp client) = []
           \<and> is_success (StatusCode (resp client))))"
  using assms
  by (auto simp add: Execute_def Do_def Let_def split: option.splits if_splits)

text \<open>
  The claim at work on two cases of the test: the failure with an error list, and the
  delete that is answered with an empty body.
\<close>

theorem Execute_payload_or_errors_witness:
  "(\<exists>r. fst (Execute decode_dummyBody decode_ErrorList
            (WithParseErrorListOnError True
              (WithBody [] (WithQueryParams [] (NewCall ''DELETE'' ''/message/4711''))))
            (mockResponse 500 errors_4711_body)) = Inr r
        \<and> ErrorList r = Some errors_4711
        \<and> \<not> (ResponseBody r \<noteq> None \<and> ErrorList r \<noteq> None)
        \<and> ((ResponseBody r = None \<and> ErrorList r = None)
            = (errResp (mockResponse 500 errors_4711_body) = None
               \<and> Body_bytes (resp (mockResponse 500 errors_4711_body)) = []
               \<and> is_success (StatusCode (resp (mockResponse 500 errors_4711_body))))))
   \<and> (\<exists>r. fst (Execute decode_dummyBody decode_ErrorList
            (WithParseErrorListOnError False
              (WithBody [] (WithQueryParams [] (NewCall ''DELETE'' ''/message/4711''))))
            (mockResponse 200 [])) = Inr r
        \<and> \<not> (ResponseBody r \<noteq> None \<and> ErrorList r \<noteq> None)
        \<and> ((ResponseBody r = None \<and> ErrorList r = None)
            = (errResp (mockResponse 200 []) = None
               \<and> Body_bytes (resp (mockResponse 200 [])) = []
               \<and> is_success (StatusCode (resp (mockResponse 200 []))))))"
proof -
  have 1: "fst (Execute decode_dummyBody decode_ErrorList
     (WithParseErrorListOnError True
       (WithBody [] (WithQueryParams [] (NewCall ''DELETE'' ''/message/4711''))))
     (mockResponse 500 errors_4711_body))
    = Inr \<lparr>ResponseBody = None, ErrorList = Some errors_4711\<rparr>"
    by (simp add: Test_call_Execute(5))
  have 2: "fst (Execute decode_dummyBody decode_ErrorList
     (WithParseErrorListOnError False
       (WithBody [] (WithQueryParams [] (NewCall ''DELETE'' ''/message/4711''))))
     (mockResponse 200 []))
    = Inr \<lparr>ResponseBody = None, ErrorList = None\<rparr>"
    by (simp add: Test_call_Execute(4))
  have 3: "ErrorList \<lparr>ResponseBody = None :: dummyBody option, ErrorList = Some errors_4711\<rparr>
      = Some errors_4711"
    by simp
  from Execute_payload_or_errors [OF 1] Execute_payload_or_errors [OF 2] 1 2 3
  show ?thesis by blast
qed

subsection \<open>The URL handed to the transport\<close>



end
